theory Spec2Isabelle
  imports Complex_Main "HOL-Library.Log_Nat"
begin

section \<open>The post store (PostContext)\<close>

text \<open>
  A post is the JSON object the server returns. The three fields the store mutates are
  kept typed; \<open>None\<close> stands for a field that is missing (JavaScript \<open>undefined\<close>),
  which is what the source's \<open>post.is_liked || false\<close> and \<open>post.like_count || 0\<close>
  guard against. Counts are the integers the server sends, held as JavaScript numbers
  (see \<open>js_add\<close> and \<open>js_sub\<close> for their arithmetic). All remaining fields
  (caption, image_url, username, created_at, ...) live in \<open>other\<close>, keyed by name.
\<close>

record post =
  post_id :: nat
  user_id :: nat
  is_liked :: "bool option"
  like_count :: "int option"
  comment_count :: "int option"
  other :: "string \<rightharpoonup> string"

text \<open>
  The object literal handed to \<open>updatePost\<close>: every field is optional, \<open>None\<close>
  meaning that the literal does not name the field. The callers name the like and comment
  fields only; the identifier and the owner of a post cannot be named.
\<close>

record updates =
  up_is_liked :: "bool option"
  up_like_count :: "int option"
  up_comment_count :: "int option"
  up_other :: "string \<rightharpoonup> string"

definition no_updates :: updates where
  "no_updates = \<lparr>up_is_liked = None, up_like_count = None, up_comment_count = None,
                  up_other = Map.empty\<rparr>"

text \<open>
  The three pieces of React state of \<open>PostProvider\<close> that hold data. Identifiers are
  the numbers the server assigns. The fourth piece, the flag \<open>loading\<close>, is neither
  read nor written by any function of the provider.
\<close>

record store =
  posts :: "nat \<rightharpoonup> post"
  feedPosts :: "nat list"
  userPosts :: "string \<rightharpoonup> nat list"

definition getPost :: "store \<Rightarrow> nat \<Rightarrow> post option" where
  "getPost st postId = posts st postId"

text \<open>\<open>{...existingPost, ...updates}\<close>: a named field wins, an unnamed one is kept.\<close>

definition spread :: "post \<Rightarrow> updates \<Rightarrow> post" where
  "spread existingPost u =
     existingPost
       \<lparr>is_liked := (case up_is_liked u of None \<Rightarrow> is_liked existingPost | Some b \<Rightarrow> Some b),
        like_count := (case up_like_count u of None \<Rightarrow> like_count existingPost | Some n \<Rightarrow> Some n),
        comment_count :=
          (case up_comment_count u of None \<Rightarrow> comment_count existingPost | Some n \<Rightarrow> Some n),
        other := other existingPost ++ up_other u\<rparr>"

definition updatePost :: "nat \<Rightarrow> updates \<Rightarrow> store \<Rightarrow> store" where
  "updatePost postId u st =
     (case posts st postId of
        None \<Rightarrow> st
      | Some existingPost \<Rightarrow> st\<lparr>posts := (posts st)(postId \<mapsto> spread existingPost u)\<rparr>)"

definition setPost :: "post \<Rightarrow> store \<Rightarrow> store" where
  "setPost p st = st\<lparr>posts := (posts st)(post_id p \<mapsto> p)\<rparr>"

definition setPostsBatch :: "post list \<Rightarrow> store \<Rightarrow> store" where
  "setPostsBatch newPosts st =
     st\<lparr>posts := fold (\<lambda>p updated. updated(post_id p \<mapsto> p)) newPosts (posts st)\<rparr>"

definition setFeed :: "nat list \<Rightarrow> store \<Rightarrow> store" where
  "setFeed postIds st = st\<lparr>feedPosts := postIds\<rparr>"

text \<open>
  A JavaScript \<open>Set\<close> iterates in insertion order and \<open>add\<close> ignores a value it already
  holds, so a \<open>Set\<close> is the list of its members in order of first insertion.
  \<open>new Set(prev)\<close> adds the members of \<open>prev\<close> one by one; \<open>Array.from\<close> reads the
  list back.
\<close>

definition set_add :: "'a \<Rightarrow> 'a list \<Rightarrow> 'a list" where
  "set_add x existing = (if x \<in> set existing then existing else existing @ [x])"

definition new_Set :: "'a list \<Rightarrow> 'a list" where
  "new_Set xs = fold set_add xs []"

definition addToFeed :: "nat list \<Rightarrow> store \<Rightarrow> store" where
  "addToFeed postIds st = st\<lparr>feedPosts := fold set_add postIds (new_Set (feedPosts st))\<rparr>"

definition setUserPostsList :: "string \<Rightarrow> nat list \<Rightarrow> store \<Rightarrow> store" where
  "setUserPostsList username postIds st = st\<lparr>userPosts := (userPosts st)(username \<mapsto> postIds)\<rparr>"

definition addNewPost :: "post \<Rightarrow> store \<Rightarrow> store" where
  "addNewPost p st = (let st1 = setPost p st in st1\<lparr>feedPosts := post_id p # feedPosts st1\<rparr>)"

definition clearPosts :: "store \<Rightarrow> store" where
  "clearPosts st = \<lparr>posts = Map.empty, feedPosts = [], userPosts = Map.empty\<rparr>"

section \<open>The network\<close>

text \<open>
  A rejected axios promise. \<open>error.response\<close> is absent when no answer arrived;
  otherwise it carries the HTTP status and possibly \<open>data.error\<close>. The last component
  is \<open>error.message\<close>.
\<close>

datatype error = NoResponse string | ErrorResponse nat "string option" string

datatype 'a reply = Rejected error | Resolved 'a

text \<open>
  The response interceptor of api.js (on status 401 it removes the two storage items and
  loads the login page) runs before a rejection reaches its caller. It touches neither the
  post store nor the functions below and is not modelled.
\<close>

text \<open>\<open>error.response?.data?.error\<close>\<close>

fun response_data_error :: "error \<Rightarrow> string option" where
  "response_data_error (NoResponse m) = None"
| "response_data_error (ErrorResponse status e m) = e"

text \<open>\<open>a || b\<close> on strings: a missing or empty left operand yields the right one.\<close>

fun or_else :: "string option \<Rightarrow> string \<Rightarrow> string" where
  "or_else None d = d"
| "or_else (Some s) d = (if s = [] then d else s)"

record comment =
  comment_id :: nat
  comment_user_id :: nat
  comment_text :: string

text \<open>
  How the server answers during one invocation of an action: one field per endpoint of
  \<open>postAPI\<close> that the store uses.
\<close>

record api =
  postAPI_getById :: "nat \<Rightarrow> post reply"
  postAPI_like :: "nat \<Rightarrow> unit reply"
  postAPI_unlike :: "nat \<Rightarrow> unit reply"
  postAPI_addComment :: "nat \<Rightarrow> string \<Rightarrow> comment reply"
  postAPI_delete :: "nat \<Rightarrow> unit reply"

datatype call =
    GetById nat
  | Like nat
  | Unlike nat
  | AddComment nat string
  | Delete nat
  | GetFeed nat nat

text \<open>What an action does besides changing the store, in the order it happens.\<close>

datatype event =
    Request call
  | ToastError string
  | ToastSuccess string
  | Navigate string

text \<open>An async action either returns or rethrows the error it caught.\<close>

datatype 'a outcome = Returns 'a | Throws error

text \<open>The store once an action has settled.\<close>

definition settled :: "'a outcome \<times> store \<times> event list \<Rightarrow> store" where
  "settled r = fst (snd r)"

section \<open>JavaScript numbers\<close>

text \<open>
  A count is a JavaScript number, an IEEE 754 double, and \<open>+\<close> and \<open>-\<close> yield the
  double nearest to the exact result, a tie going to the even significand. On integers:
  every integer of magnitude up to \<open>2 ^ 53\<close> is a double; a larger one is rounded to
  53 significant bits. Magnitudes beyond the largest finite double, where the code would
  yield \<open>Infinity\<close>, are outside the model. \<open>Math.max\<close> is exact.
\<close>

definition double_of_int :: "int \<Rightarrow> int" where
  "double_of_int x =
     (if \<bar>x\<bar> \<le> 2 ^ 53 then x
      else (let q = 2 ^ nat (bitlen \<bar>x\<bar> - 53);
                m = \<bar>x\<bar> div q;
                r = \<bar>x\<bar> mod q;
                m1 = (if 2 * r < q \<or> (2 * r = q \<and> even m) then m else m + 1)
            in sgn x * (m1 * q)))"

definition js_add :: "int \<Rightarrow> int \<Rightarrow> int" where
  "js_add a b = double_of_int (a + b)"

definition js_sub :: "int \<Rightarrow> int \<Rightarrow> int" where
  "js_sub a b = double_of_int (a - b)"

section \<open>The optimistic actions of PostContext\<close>

text \<open>
  Each callback is re-created whenever \<open>posts\<close> changes (its dependency list names
  \<open>posts\<close>), so an action invoked after the previous one has settled reads the current
  cache. Actions are modelled one at a time: the state they read is the state they update.
\<close>

text \<open>\<open>post.is_liked || false\<close>, \<open>post.like_count || 0\<close>, \<open>post.comment_count || 0\<close>\<close>

definition wasLiked :: "post \<Rightarrow> bool" where
  "wasLiked p = (case is_liked p of None \<Rightarrow> False | Some b \<Rightarrow> b)"

definition oldLikeCount :: "post \<Rightarrow> int" where
  "oldLikeCount p = (case like_count p of None \<Rightarrow> 0 | Some n \<Rightarrow> n)"

definition oldCommentCount :: "post \<Rightarrow> int" where
  "oldCommentCount p = (case comment_count p of None \<Rightarrow> 0 | Some n \<Rightarrow> n)"

text \<open>The object literal \<open>{is_liked: b, like_count: n}\<close>.\<close>

definition like_updates :: "bool \<Rightarrow> int \<Rightarrow> updates" where
  "like_updates b n = no_updates\<lparr>up_is_liked := Some b, up_like_count := Some n\<rparr>"

text \<open>The object literal \<open>{comment_count: n}\<close>.\<close>

definition comment_updates :: "int \<Rightarrow> updates" where
  "comment_updates n = no_updates\<lparr>up_comment_count := Some n\<rparr>"

definition likePost :: "api \<Rightarrow> nat \<Rightarrow> store \<Rightarrow> unit outcome \<times> store \<times> event list" where
  "likePost net postId st =
     (case posts st postId of
        None \<Rightarrow> (Returns (), st, [])
      | Some p \<Rightarrow>
          (let st1 = updatePost postId
                       (like_updates True (js_add (oldLikeCount p) (if wasLiked p then 0 else 1))) st
           in case postAPI_like net postId of
                Resolved r \<Rightarrow> (Returns (), st1, [Request (Like postId)])
              | Rejected e \<Rightarrow>
                  (Throws e,
                   updatePost postId (like_updates (wasLiked p) (oldLikeCount p)) st1,
                   [Request (Like postId),
                    ToastError (or_else (response_data_error e) ''Failed to like post'')])))"

definition unlikePost :: "api \<Rightarrow> nat \<Rightarrow> store \<Rightarrow> unit outcome \<times> store \<times> event list" where
  "unlikePost net postId st =
     (case posts st postId of
        None \<Rightarrow> (Returns (), st, [])
      | Some p \<Rightarrow>
          (let st1 = updatePost postId
                       (like_updates False
                          (max 0 (js_sub (oldLikeCount p) (if wasLiked p then 1 else 0)))) st
           in case postAPI_unlike net postId of
                Resolved r \<Rightarrow> (Returns (), st1, [Request (Unlike postId)])
              | Rejected e \<Rightarrow>
                  (Throws e,
                   updatePost postId (like_updates (wasLiked p) (oldLikeCount p)) st1,
                   [Request (Unlike postId),
                    ToastError (or_else (response_data_error e) ''Failed to unlike post'')])))"

text \<open>
  The part of \<open>toggleLike\<close> after \<open>post\<close> is known (lines "Perform optimistic update
  inline" to the end); \<open>before\<close> holds the events of the fetch, if there was one.
\<close>

definition toggleLike_known ::
  "api \<Rightarrow> nat \<Rightarrow> post \<Rightarrow> store \<Rightarrow> event list \<Rightarrow> unit outcome \<times> store \<times> event list" where
  "toggleLike_known net postId p st before =
     (let st1 = updatePost postId
                  (like_updates (\<not> wasLiked p)
                     (if wasLiked p then max 0 (js_sub (oldLikeCount p) 1)
                      else js_add (oldLikeCount p) 1)) st;
          sent = (if wasLiked p then Unlike postId else Like postId)
      in case (if wasLiked p then postAPI_unlike net postId else postAPI_like net postId) of
           Resolved r \<Rightarrow> (Returns (), st1, before @ [Request sent])
         | Rejected e \<Rightarrow>
             (Throws e,
              updatePost postId (like_updates (wasLiked p) (oldLikeCount p)) st1,
              before @ [Request sent,
                        ToastError (or_else (response_data_error e) ''Failed to toggle like'')]))"

definition toggleLike :: "api \<Rightarrow> nat \<Rightarrow> store \<Rightarrow> unit outcome \<times> store \<times> event list" where
  "toggleLike net postId st =
     (case posts st postId of
        Some p \<Rightarrow> toggleLike_known net postId p st []
      | None \<Rightarrow>
          (case postAPI_getById net postId of
             Rejected e \<Rightarrow>
               (Throws e, st,
                [Request (GetById postId),
                 ToastError (or_else (response_data_error e) ''Failed to load post'')])
           | Resolved p \<Rightarrow>
               toggleLike_known net postId p (setPost p st) [Request (GetById postId)]))"

text \<open>
  \<open>addComment\<close> returns \<open>response.data\<close> on success and nothing when the post is not
  cached. Its third parameter \<open>user\<close> is not used by the body and is left out.
\<close>

definition addComment ::
  "api \<Rightarrow> nat \<Rightarrow> string \<Rightarrow> store \<Rightarrow> comment option outcome \<times> store \<times> event list" where
  "addComment net postId text' st =
     (case posts st postId of
        None \<Rightarrow> (Returns None, st, [])
      | Some p \<Rightarrow>
          (let st1 = updatePost postId (comment_updates (js_add (oldCommentCount p) 1)) st
           in case postAPI_addComment net postId text' of
                Resolved c \<Rightarrow>
                  (Returns (Some c), st1,
                   [Request (AddComment postId text'), ToastSuccess ''Comment added''])
              | Rejected e \<Rightarrow>
                  (Throws e,
                   updatePost postId (comment_updates (oldCommentCount p)) st1,
                   [Request (AddComment postId text'),
                    ToastError (or_else (response_data_error e) ''Failed to add comment'')])))"

text \<open>
  Modelled from the spec: \<open>deletePost\<close>. PostCard, PostDetail and Profile take
  \<open>deletePost\<close> from \<open>usePost()\<close>, but the PostProvider among the sources does not
  define it. The spec (4.2) says: delete-post removes the identifier from every list that
  references it and removes the entity from the cache; the action is attempted, and a
  failure is reported without resurrecting the removed entity.
\<close>

definition deletePost :: "api \<Rightarrow> nat \<Rightarrow> store \<Rightarrow> unit outcome \<times> store \<times> event list" where
  "deletePost net postId st =
     (let st1 = \<lparr>posts = (posts st)(postId := None),
                 feedPosts = filter (\<lambda>i. i \<noteq> postId) (feedPosts st),
                 userPosts = (\<lambda>username. map_option (filter (\<lambda>i. i \<noteq> postId))
                                          (userPosts st username))\<rparr>
      in case postAPI_delete net postId of
           Resolved r \<Rightarrow> (Returns (), st1, [Request (Delete postId)])
         | Rejected e \<Rightarrow>
             (Throws e, st1,
              [Request (Delete postId),
               ToastError (or_else (response_data_error e) ''Failed to delete post'')]))"

section \<open>The session store (AuthContext)\<close>

record user_info =
  uid :: nat
  username :: string

text \<open>The two items of \<open>localStorage\<close> that \<open>AuthProvider\<close> reads and writes.\<close>

record storage =
  item_token :: "string option"
  item_user :: "string option"

text \<open>
  The React state of \<open>AuthProvider\<close>. \<open>None\<close> is \<open>null\<close>; the field \<open>loading\<close> of
  the source is \<open>auth_loading\<close> here.
\<close>

record auth_state =
  user :: "user_info option"
  token :: "string option"
  auth_loading :: bool

text \<open>Truthiness of a string or \<open>null\<close>: the empty string is falsy.\<close>

fun truthy :: "string option \<Rightarrow> bool" where
  "truthy None = False"
| "truthy (Some s) = (s \<noteq> [])"

text \<open>\<open>isAuthenticated: !!token && !!user\<close>\<close>

definition isAuthenticated :: "auth_state \<Rightarrow> bool" where
  "isAuthenticated a = (truthy (token a) \<and> user a \<noteq> None)"

text \<open>\<open>useState(null)\<close>, \<open>useState(null)\<close>, \<open>useState(true)\<close>\<close>

definition initial_auth :: auth_state where
  "initial_auth = \<lparr>user = None, token = None, auth_loading = True\<rparr>"

definition removeItems :: "storage \<Rightarrow> storage" where
  "removeItems ls = ls\<lparr>item_token := None, item_user := None\<rparr>"

text \<open>
  The payload of a decoded token: only \<open>exp\<close> is read (the field \<open>jwt_exp\<close>), and it may be
  missing.
  \<open>jwtDecode\<close> and \<open>JSON.parse\<close> are library functions; they are parameters of the
  model. \<open>jwtDecode\<close> yields \<open>None\<close> when it throws; \<open>JSON.parse\<close> either throws or
  yields a value (\<open>None\<close> for \<open>null\<close>).
\<close>

record jwt_payload =
  jwt_exp :: "rat option"

datatype parsed = SyntaxError | Parsed "user_info option"

text \<open>\<open>decoded.exp > currentTime\<close>: a comparison with \<open>undefined\<close> is false.\<close>

definition exp_after :: "jwt_payload \<Rightarrow> rat \<Rightarrow> bool" where
  "exp_after decoded currentTime = (case jwt_exp decoded of None \<Rightarrow> False | Some e \<Rightarrow> e > currentTime)"

text \<open>
  The effect that runs once on mount, on the initial state. \<open>now\<close> is \<open>Date.now()\<close>
  in milliseconds. When \<open>JSON.parse\<close> throws, \<open>setToken\<close> has already run.
\<close>

definition initAuth ::
  "(string \<Rightarrow> jwt_payload option) \<Rightarrow> (string \<Rightarrow> parsed) \<Rightarrow> int \<Rightarrow> storage
     \<Rightarrow> storage \<times> auth_state" where
  "initAuth jwtDecode JSON_parse now ls =
     (let a0 = initial_auth;
          loaded = (\<lambda>a. a\<lparr>auth_loading := False\<rparr>)
      in case (item_token ls, item_user ls) of
           (Some storedToken, Some storedUser) \<Rightarrow>
             if storedToken \<noteq> [] \<and> storedUser \<noteq> [] then
               (case jwtDecode storedToken of
                  None \<Rightarrow> (removeItems ls, loaded a0)
                | Some decoded \<Rightarrow>
                    (let currentTime = of_int now / 1000
                     in if exp_after decoded currentTime then
                          (case JSON_parse storedUser of
                             SyntaxError \<Rightarrow>
                               (removeItems ls, loaded (a0\<lparr>token := Some storedToken\<rparr>))
                           | Parsed u \<Rightarrow>
                               (ls, loaded (a0\<lparr>token := Some storedToken, user := u\<rparr>)))
                        else (removeItems ls, loaded a0)))
             else (ls, loaded a0)
         | _ \<Rightarrow> (ls, loaded a0))"

text \<open>What \<open>login\<close> and \<open>signup\<close> hand back to the form.\<close>

datatype auth_result = Success "string option" | Failure string

text \<open>\<open>response.data\<close> of the two auth endpoints; any field may be missing.\<close>

record auth_data =
  data_token :: "string option"
  data_user :: "user_info option"
  data_message :: "string option"

record authAPI =
  authAPI_login :: "string \<Rightarrow> string \<Rightarrow> auth_data reply"
  authAPI_signup :: "string \<Rightarrow> string \<Rightarrow> string \<Rightarrow> auth_data reply"

text \<open>
  The \<open>catch\<close> branch shared by \<open>login\<close> and \<open>signup\<close>:
  \<open>error.response?.data?.error || error.message || fallback\<close>, after the test for a
  missing response.
\<close>

fun auth_failure :: "error \<Rightarrow> string \<Rightarrow> auth_result" where
  "auth_failure (NoResponse m) fallback =
     Failure ''Network error. Please check if the server is running.''"
| "auth_failure (ErrorResponse status e m) fallback =
     Failure (or_else e (or_else (Some m) fallback))"

definition login ::
  "authAPI \<Rightarrow> (user_info \<Rightarrow> string) \<Rightarrow> string \<Rightarrow> string \<Rightarrow> storage \<times> auth_state
     \<Rightarrow> auth_result \<times> storage \<times> auth_state" where
  "login net JSON_stringify uname password s =
     (case authAPI_login net uname password of
        Rejected e \<Rightarrow> (auth_failure e ''Login failed'', s)
      | Resolved d \<Rightarrow>
          (case data_user d of
             None \<Rightarrow> (Failure ''Invalid response from server'', s)
           | Some userData \<Rightarrow>
               if \<not> truthy (data_token d) then (Failure ''Invalid response from server'', s)
               else (Success None,
                     (fst s)\<lparr>item_token := data_token d,
                             item_user := Some (JSON_stringify userData)\<rparr>,
                     (snd s)\<lparr>token := data_token d, user := Some userData\<rparr>)))"

definition signup ::
  "authAPI \<Rightarrow> string \<Rightarrow> string \<Rightarrow> string \<Rightarrow> storage \<times> auth_state
     \<Rightarrow> auth_result \<times> storage \<times> auth_state" where
  "signup net uname email password s =
     (case authAPI_signup net uname email password of
        Rejected e \<Rightarrow> (auth_failure e ''Signup failed'', s)
      | Resolved d \<Rightarrow>
          (Success (Some (or_else (data_message d) ''Account created successfully'')),
           removeItems (fst s),
           (snd s)\<lparr>token := None, user := None\<rparr>))"

definition logout :: "storage \<times> auth_state \<Rightarrow> storage \<times> auth_state" where
  "logout s = (removeItems (fst s), (snd s)\<lparr>token := None, user := None\<rparr>)"

text \<open>
  The file AuthContext.jsx holds a second copy of \<open>AuthProvider\<close> (after the first one)
  whose \<open>signup\<close> reads \<open>token\<close> and \<open>user\<close> from the response and stores them, as
  its \<open>login\<close> does. \<open>localStorage.setItem\<close> and \<open>JSON.stringify\<close> turn a missing
  value into the text \<open>undefined\<close>.
\<close>

definition signup_second_copy ::
  "authAPI \<Rightarrow> (user_info \<Rightarrow> string) \<Rightarrow> string \<Rightarrow> string \<Rightarrow> string \<Rightarrow> storage \<times> auth_state
     \<Rightarrow> auth_result \<times> storage \<times> auth_state" where
  "signup_second_copy net JSON_stringify uname email password s =
     (case authAPI_signup net uname email password of
        Rejected e \<Rightarrow> (Failure (or_else (response_data_error e) ''Signup failed''), s)
      | Resolved d \<Rightarrow>
          (Success None,
           (fst s)\<lparr>item_token := Some (case data_token d of None \<Rightarrow> ''undefined'' | Some t \<Rightarrow> t),
                   item_user := Some (case data_user d of None \<Rightarrow> ''undefined''
                                      | Some userData \<Rightarrow> JSON_stringify userData)\<rparr>,
           (snd s)\<lparr>token := data_token d, user := data_user d\<rparr>))"

section \<open>The handlers of PostCard, PostDetail and CommentList\<close>

text \<open>
  The handlers catch what the context actions rethrow, so they yield the store and the
  events only. Component-local state (the comment text, the submitting and deleting flags)
  is not part of the store and is left out. \<open>String.prototype.trim\<close> and the answer
  to \<open>window.confirm\<close> are parameters.
\<close>

text \<open>PostCard: \<open>handleLike\<close>\<close>

definition handleLike :: "api \<Rightarrow> auth_state \<Rightarrow> nat \<Rightarrow> store \<Rightarrow> store \<times> event list" where
  "handleLike net a postId st =
     (if \<not> isAuthenticated a then (st, [ToastError ''Please login to like posts''])
      else snd (toggleLike net postId st))"

text \<open>PostDetail: \<open>handleLike\<close>, which also navigates to the login page\<close>

definition handleLike_PostDetail ::
  "api \<Rightarrow> auth_state \<Rightarrow> nat \<Rightarrow> store \<Rightarrow> store \<times> event list" where
  "handleLike_PostDetail net a postId st =
     (if \<not> isAuthenticated a
      then (st, [ToastError ''Please login to like posts'', Navigate ''/login''])
      else snd (toggleLike net postId st))"

text \<open>PostCard and PostDetail: \<open>handleComment\<close>\<close>

definition handleComment ::
  "(string \<Rightarrow> string) \<Rightarrow> api \<Rightarrow> auth_state \<Rightarrow> nat \<Rightarrow> string \<Rightarrow> store \<Rightarrow> store \<times> event list" where
  "handleComment trim net a postId commentText st =
     (if trim commentText = [] \<or> \<not> isAuthenticated a then (st, [])
      else snd (addComment net postId commentText st))"

text \<open>\<open>isOwnPost = isAuthenticated && user && post.user_id === user.id\<close>\<close>

definition isOwnPost :: "auth_state \<Rightarrow> post \<Rightarrow> bool" where
  "isOwnPost a p =
     (isAuthenticated a \<and> (case user a of None \<Rightarrow> False | Some u \<Rightarrow> user_id p = uid u))"

text \<open>
  PostCard: \<open>handleDelete\<close>. The context action \<open>deletePost\<close> is a parameter, already
  applied to the network.
\<close>

definition handleDelete ::
  "(nat \<Rightarrow> store \<Rightarrow> unit outcome \<times> store \<times> event list) \<Rightarrow> auth_state \<Rightarrow> bool \<Rightarrow> post \<Rightarrow> store
     \<Rightarrow> store \<times> event list" where
  "handleDelete deletePost_action a confirmed p st =
     (if \<not> isOwnPost a p then (st, [])
      else if \<not> confirmed then (st, [])
      else snd (deletePost_action (post_id p) st))"

text \<open>
  PostDetail: \<open>handleDelete\<close>. The post is looked up under the identifier of the route
  (\<open>isOwnPost\<close> is false while it is not cached), and a successful deletion navigates
  to the feed.
\<close>

definition handleDelete_PostDetail ::
  "(nat \<Rightarrow> store \<Rightarrow> unit outcome \<times> store \<times> event list) \<Rightarrow> auth_state \<Rightarrow> bool \<Rightarrow> nat \<Rightarrow> store
     \<Rightarrow> store \<times> event list" where
  "handleDelete_PostDetail deletePost_action a confirmed postId st =
     (case getPost st postId of
        None \<Rightarrow> (st, [])
      | Some p \<Rightarrow>
          if \<not> isOwnPost a p then (st, [])
          else if \<not> confirmed then (st, [])
          else (case deletePost_action postId st of
                  (Returns r, st1, ev) \<Rightarrow> (st1, ev @ [Navigate ''/''])
                | (Throws e, st1, ev) \<Rightarrow> (st1, ev)))"

text \<open>
  CommentList: \<open>handleDeleteComment\<close>. The context action \<open>deleteComment\<close> is not among
  the sources and is a parameter.
\<close>

definition handleDeleteComment ::
  "(nat \<Rightarrow> nat \<Rightarrow> store \<Rightarrow> unit outcome \<times> store \<times> event list) \<Rightarrow> auth_state \<Rightarrow> bool \<Rightarrow> nat \<Rightarrow> nat
     \<Rightarrow> store \<Rightarrow> store \<times> event list" where
  "handleDeleteComment deleteComment_action a confirmed commentId postId st =
     (if \<not> isAuthenticated a \<or> user a = None
      then (st, [ToastError ''Please login to delete comments''])
      else if \<not> confirmed then (st, [])
      else (case deleteComment_action commentId postId st of
              (Returns r, st1, ev) \<Rightarrow> (st1, ev @ [ToastSuccess ''Comment deleted successfully''])
            | (Throws e, st1, ev) \<Rightarrow> (st1, ev)))"

section \<open>The feed page and its pagination\<close>

text \<open>
  The local state of the Feed component. The flag \<open>loading\<close> (first page) of the
  source is \<open>feed_loading\<close> here; \<open>loadingMore\<close> is the flag of a later page.
\<close>

record feed_state =
  page :: nat
  hasMore :: bool
  loadingMore :: bool
  feed_loading :: bool

text \<open>\<open>useState(true)\<close>, \<open>useState(1)\<close>, \<open>useState(true)\<close>, \<open>useState(false)\<close>\<close>

definition initial_feed :: feed_state where
  "initial_feed = \<lparr>page = 1, hasMore = True, loadingMore = False, feed_loading = True\<rparr>"

definition handleLoadMore :: "feed_state \<Rightarrow> feed_state" where
  "handleLoadMore fs = (if \<not> loadingMore fs \<and> hasMore fs then fs\<lparr>page := page fs + 1\<rparr> else fs)"

text \<open>
  \<open>fetchFeed\<close> is started by the effect whose dependencies are \<open>isAuthenticated\<close> and
  \<open>page\<close> (through \<open>fetchFeed\<close> in the last revision): after a handler ran, a fetch is
  issued exactly when one of the two has changed, and only for an authenticated session.
\<close>

definition effect_requests :: "bool \<times> feed_state \<Rightarrow> bool \<times> feed_state \<Rightarrow> event list" where
  "effect_requests before after =
     (if (fst before, page (snd before)) \<noteq> (fst after, page (snd after)) \<and> fst after
      then [Request (GetFeed (page (snd after)) 10)]
      else [])"

text \<open>A click on Load More: the handler, then the effects of the next render.\<close>

definition load_more :: "bool \<Rightarrow> feed_state \<Rightarrow> feed_state \<times> event list" where
  "load_more authenticated fs =
     (let fs1 = handleLoadMore fs
      in (fs1, effect_requests (authenticated, fs) (authenticated, fs1)))"

text \<open>
  What the component renders of the Load More button, given the number of cached feed
  posts: nothing (\<open>None\<close>) for a visitor, during the first load, for an empty feed and
  when \<open>hasMore\<close> is false; otherwise the button, with its \<open>disabled\<close> attribute.
\<close>

definition load_more_button :: "bool \<Rightarrow> nat \<Rightarrow> feed_state \<Rightarrow> bool option" where
  "load_more_button authenticated postsList_length fs =
     (if \<not> authenticated then None
      else if feed_loading fs then None
      else if postsList_length = 0 then None
      else if hasMore fs then Some (loadingMore fs) else None)"

text \<open>A click reaches the handler only through a button that is rendered and enabled.\<close>

definition click_load_more :: "bool \<Rightarrow> nat \<Rightarrow> feed_state \<Rightarrow> feed_state \<times> event list" where
  "click_load_more authenticated postsList_length fs =
     (case load_more_button authenticated postsList_length fs of
        Some False \<Rightarrow> load_more authenticated fs
      | _ \<Rightarrow> (fs, []))"

text \<open>\<open>response.data\<close> of the feed endpoint.\<close>

record feed_data =
  data_posts :: "post list option"
  has_next :: "bool option"

text \<open>\<open>fetchFeed\<close> up to the \<open>await\<close>\<close>

definition fetchFeed_begin :: "feed_state \<Rightarrow> feed_state" where
  "fetchFeed_begin fs = (if page fs = 1 then fs\<lparr>feed_loading := True\<rparr> else fs\<lparr>loadingMore := True\<rparr>)"

text \<open>
  \<open>fetchFeed\<close> from the answer on, \<open>finally\<close> included. The error text is the one
  of the revisions that do not fall back on \<open>error.message\<close>.
\<close>

definition fetchFeed_end ::
  "feed_data reply \<Rightarrow> feed_state \<times> store \<Rightarrow> (feed_state \<times> store) \<times> event list" where
  "fetchFeed_end r s =
     (let fs = fst s; st = snd s;
          settle = (\<lambda>f. f\<lparr>feed_loading := False, loadingMore := False\<rparr>)
      in case r of
           Resolved d \<Rightarrow>
             (let newPosts = (case data_posts d of None \<Rightarrow> [] | Some ps \<Rightarrow> ps);
                  st1 = setPostsBatch newPosts st;
                  postIds = map post_id newPosts;
                  st2 = (if page fs = 1 then setFeed postIds st1 else addToFeed postIds st1)
              in ((settle (fs\<lparr>hasMore := (case has_next d of None \<Rightarrow> False | Some b \<Rightarrow> b)\<rparr>), st2),
                  []))
         | Rejected e \<Rightarrow>
             ((settle fs, st),
              [ToastError (or_else (response_data_error e) ''Failed to load feed'')]))"

section \<open>Concrete inputs\<close>

definition post7 :: post where
  "post7 = \<lparr>post_id = 7, user_id = 3, is_liked = Some False, like_count = Some 5,
            comment_count = Some 2, other = [''caption'' \<mapsto> ''sunset'']\<rparr>"

definition post8 :: post where
  "post8 = \<lparr>post_id = 8, user_id = 4, is_liked = Some True, like_count = Some 0,
            comment_count = None, other = Map.empty\<rparr>"

definition post9 :: post where
  "post9 = \<lparr>post_id = 9, user_id = 4, is_liked = Some False, like_count = Some (2 ^ 53),
            comment_count = Some 0, other = Map.empty\<rparr>"

definition store9 :: store where
  "store9 = \<lparr>posts = [9 \<mapsto> post9], feedPosts = [9], userPosts = Map.empty\<rparr>"

definition store0 :: store where
  "store0 = \<lparr>posts = [7 \<mapsto> post7, 8 \<mapsto> post8], feedPosts = [8, 7],
             userPosts = [''ann'' \<mapsto> [7], ''bob'' \<mapsto> [8, 7]]\<rparr>"

definition server_down :: error where
  "server_down = NoResponse ''Network Error''"

definition net_ok :: api where
  "net_ok = \<lparr>postAPI_getById = (\<lambda>i. Rejected (ErrorResponse 404 (Some ''Post not found'') ''404'')),
             postAPI_like = (\<lambda>i. Resolved ()),
             postAPI_unlike = (\<lambda>i. Resolved ()),
             postAPI_addComment =
               (\<lambda>i t. Resolved \<lparr>comment_id = 1, comment_user_id = 3, comment_text = t\<rparr>),
             postAPI_delete = (\<lambda>i. Resolved ())\<rparr>"

definition net_down :: api where
  "net_down = \<lparr>postAPI_getById = (\<lambda>i. Rejected server_down),
               postAPI_like = (\<lambda>i. Rejected server_down),
               postAPI_unlike = (\<lambda>i. Rejected server_down),
               postAPI_addComment = (\<lambda>i t. Rejected server_down),
               postAPI_delete = (\<lambda>i. Rejected server_down)\<rparr>"

definition no_session :: auth_state where
  "no_session = \<lparr>user = None, token = None, auth_loading = False\<rparr>"

definition ann :: user_info where
  "ann = \<lparr>uid = 3, username = ''ann''\<rparr>"

definition ann_session :: auth_state where
  "ann_session = \<lparr>user = Some ann, token = Some ''header.payload.signature'',
                   auth_loading = False\<rparr>"

definition loading_page_2 :: feed_state where
  "loading_page_2 = \<lparr>page = 2, hasMore = True, loadingMore = True, feed_loading = False\<rparr>"

definition last_page :: feed_data where
  "last_page = \<lparr>data_posts = Some [], has_next = Some False\<rparr>"

definition stored_session :: storage where
  "stored_session = \<lparr>item_token = Some ''header.payload.signature'',
                      item_user = Some ''ann.json''\<rparr>"

definition decode_exp_1000 :: "string \<Rightarrow> jwt_payload option" where
  "decode_exp_1000 t = Some \<lparr>jwt_exp = Some 1000\<rparr>"

definition parse_ann :: "string \<Rightarrow> parsed" where
  "parse_ann s = Parsed (Some ann)"

definition signup_ok :: authAPI where
  "signup_ok = \<lparr>authAPI_login = (\<lambda>u p. Rejected server_down),
                authAPI_signup =
                  (\<lambda>u e p. Resolved \<lparr>data_token = Some ''header.payload.signature'',
                                     data_user = Some ann,
                                     data_message = Some ''User created successfully''\<rparr>)\<rparr>"

section \<open>Auxiliary facts about insertion-ordered sets\<close>

lemma set_add_member: "x \<in> set existing \<Longrightarrow> set_add x existing = existing"
  by (simp add: set_add_def)

lemma set_add_fresh: "x \<notin> set existing \<Longrightarrow> set_add x existing = existing @ [x]"
  by (simp add: set_add_def)

lemma set_set_add: "set (set_add x existing) = insert x (set existing)"
  by (auto simp: set_add_def)

lemma distinct_set_add: "distinct existing \<Longrightarrow> distinct (set_add x existing)"
  by (simp add: set_add_def)

lemma set_fold_set_add: "set (fold set_add xs acc) = set acc \<union> set xs"
  by (induction xs arbitrary: acc) (simp_all add: set_set_add)

lemma distinct_fold_set_add: "distinct acc \<Longrightarrow> distinct (fold set_add xs acc)"
  by (induction xs arbitrary: acc) (simp_all add: distinct_set_add)

lemma fold_set_add_prefix: "\<exists>zs. fold set_add xs acc = acc @ zs"
proof (induction xs arbitrary: acc)
  case Nil
  show ?case by simp
next
  case (Cons x xs)
  obtain zs where zs: "fold set_add xs (set_add x acc) = set_add x acc @ zs"
    using Cons.IH by blast
  show ?case
  proof (cases "x \<in> set acc")
    case True
    with zs show ?thesis by (simp add: set_add_member)
  next
    case False
    with zs have "fold set_add (x # xs) acc = acc @ (x # zs)"
      by (simp add: set_add_fresh)
    then show ?thesis by blast
  qed
qed

lemma fold_set_add_present: "set xs \<subseteq> set acc \<Longrightarrow> fold set_add xs acc = acc"
  by (induction xs arbitrary: acc) (simp_all add: set_add_member)

lemma fold_set_add_fresh:
  "distinct (acc @ xs) \<Longrightarrow> fold set_add xs acc = acc @ xs"
  by (induction xs arbitrary: acc) (simp_all add: set_add_fresh)

lemma new_Set_distinct: "distinct xs \<Longrightarrow> new_Set xs = xs"
  using fold_set_add_fresh [of "[]" xs] by (simp add: new_Set_def)

lemma distinct_new_Set: "distinct (new_Set xs)"
  by (simp add: new_Set_def distinct_fold_set_add)

lemma set_new_Set: "set (new_Set xs) = set xs"
  by (simp add: new_Set_def set_fold_set_add)

section \<open>Auxiliary facts about the cache\<close>

lemma updatePost_present:
  "posts st postId = Some e \<Longrightarrow>
   updatePost postId u st = st\<lparr>posts := (posts st)(postId \<mapsto> spread e u)\<rparr>"
  by (simp add: updatePost_def)

lemma updatePost_absent: "posts st postId = None \<Longrightarrow> updatePost postId u st = st"
  by (simp add: updatePost_def)

lemma spread_like_updates:
  "spread e (like_updates b n) = e\<lparr>is_liked := Some b, like_count := Some n\<rparr>"
  by (simp add: spread_def like_updates_def no_updates_def)

lemma spread_comment_updates:
  "spread e (comment_updates n) = e\<lparr>comment_count := Some n\<rparr>"
  by (simp add: spread_def comment_updates_def no_updates_def)

lemma updatePost_twice:
  "posts st postId = Some e \<Longrightarrow>
   updatePost postId u2 (updatePost postId u1 st) =
   st\<lparr>posts := (posts st)(postId \<mapsto> spread (spread e u1) u2)\<rparr>"
  by (simp add: updatePost_def)

lemma snapshot_defined:
  "is_liked p \<noteq> None \<Longrightarrow> like_count p \<noteq> None \<Longrightarrow>
   p\<lparr>is_liked := Some (wasLiked p), like_count := Some (oldLikeCount p)\<rparr> = p"
  by (auto simp: wasLiked_def oldLikeCount_def)

lemma wasLiked_updated:
  "wasLiked (q\<lparr>is_liked := Some b\<rparr>) = b"
  "wasLiked (q\<lparr>like_count := c\<rparr>) = wasLiked q"
  by (simp_all add: wasLiked_def)

lemma oldLikeCount_updated:
  "oldLikeCount (q\<lparr>like_count := Some n\<rparr>) = n"
  "oldLikeCount (q\<lparr>is_liked := l\<rparr>) = oldLikeCount q"
  by (simp_all add: oldLikeCount_def)

lemma store_put_same: "posts st postId = Some p \<Longrightarrow> st\<lparr>posts := (posts st)(postId \<mapsto> p)\<rparr> = st"
  by (simp add: map_upd_triv)

lemma double_of_int_safe: "\<bar>x\<bar> \<le> 2 ^ 53 \<Longrightarrow> double_of_int x = x"
  by (simp add: double_of_int_def)

lemma js_add_safe: "\<bar>a + b\<bar> \<le> 2 ^ 53 \<Longrightarrow> js_add a b = a + b"
  by (simp add: js_add_def double_of_int_safe)

lemma js_sub_safe: "\<bar>a - b\<bar> \<le> 2 ^ 53 \<Longrightarrow> js_sub a b = a - b"
  by (simp add: js_sub_def double_of_int_safe)

lemma store0_after_like:
  "settled (toggleLike net_ok 7 store0) =
     store0\<lparr>posts := (posts store0)(7 \<mapsto> post7\<lparr>is_liked := Some True, like_count := Some 6\<rparr>)\<rparr>"
  by (simp add: toggleLike_def toggleLike_known_def Let_def settled_def store0_def net_ok_def
      post7_def updatePost_def spread_like_updates wasLiked_def oldLikeCount_def js_add_safe)

section \<open>Auxiliary facts about deletion and pagination\<close>

lemma deletePost_settled:
  "settled (deletePost net postId st) =
     \<lparr>posts = (posts st)(postId := None),
      feedPosts = filter (\<lambda>i. i \<noteq> postId) (feedPosts st),
      userPosts = (\<lambda>username. map_option (filter (\<lambda>i. i \<noteq> postId)) (userPosts st username))\<rparr>"
  by (simp add: deletePost_def settled_def Let_def split: reply.splits)

lemma handleDelete_PostDetail_owner:
  "getPost st postId = Some p \<Longrightarrow> isOwnPost a p \<Longrightarrow>
   fst (handleDelete_PostDetail (deletePost net) a True postId st)
     = settled (deletePost net postId st)"
  by (simp add: handleDelete_PostDetail_def deletePost_def settled_def Let_def
      split: reply.splits)

lemma handleLoadMore_idle: "loadingMore fs \<or> \<not> hasMore fs \<Longrightarrow> handleLoadMore fs = fs"
  by (auto simp: handleLoadMore_def)

lemma handleLoadMore_repeated:
  "loadingMore fs \<or> \<not> hasMore fs \<Longrightarrow> (handleLoadMore ^^ n) fs = fs"
  by (induction n) (simp_all add: handleLoadMore_idle)

section \<open>The entity cache\<close>

text \<open>
  Claim C6. \<open>updatePost\<close> on an identifier that is not cached returns the store as it
  is, so no entry is created. On a cached identifier it replaces that entry by the merge of
  the old entry with the update; every other entry, the key set of the cache, the feed and
  the per-user lists stay as they were. In the merged entry a field that the update names
  has the new value and a field that it does not name keeps the old one.
\<close>

theorem updatePost_patch:
  "(posts st postId = None \<longrightarrow> updatePost postId u st = st)
   \<and> (\<forall>e. posts st postId = Some e \<longrightarrow>
          posts (updatePost postId u st) postId = Some (spread e u))
   \<and> (\<forall>k. k \<noteq> postId \<longrightarrow> posts (updatePost postId u st) k = posts st k)
   \<and> dom (posts (updatePost postId u st)) = dom (posts st)
   \<and> feedPosts (updatePost postId u st) = feedPosts st
   \<and> userPosts (updatePost postId u st) = userPosts st
   \<and> post_id (spread e u) = post_id e
   \<and> user_id (spread e u) = user_id e
   \<and> is_liked (spread e u) = (case up_is_liked u of None \<Rightarrow> is_liked e | Some b \<Rightarrow> Some b)
   \<and> like_count (spread e u) = (case up_like_count u of None \<Rightarrow> like_count e | Some n \<Rightarrow> Some n)
   \<and> comment_count (spread e u) =
       (case up_comment_count u of None \<Rightarrow> comment_count e | Some n \<Rightarrow> Some n)
   \<and> (\<forall>f. other (spread e u) f = (case up_other u f of None \<Rightarrow> other e f | Some v \<Rightarrow> Some v))"
  by (auto simp: updatePost_def spread_def map_add_def split: option.splits)

text \<open>
  The theorem of C6 on a concrete cache: patching the absent identifier 9 changes nothing;
  patching \<open>comment_count\<close> of post 7 keeps its like fields and leaves post 8 alone.
\<close>

theorem updatePost_patch_witness:
  "posts store0 9 = None \<and> updatePost 9 (comment_updates 3) store0 = store0
   \<and> posts store0 7 = Some post7
   \<and> posts (updatePost 7 (comment_updates 3) store0) 7 = Some (post7\<lparr>comment_count := Some 3\<rparr>)
   \<and> posts (updatePost 7 (comment_updates 3) store0) 8 = posts store0 8
   \<and> is_liked (spread post7 (comment_updates 3)) = Some False"
proof -
  have absent: "posts store0 9 = None" by (simp add: store0_def)
  have cached: "posts store0 7 = Some post7" by (simp add: store0_def)
  from updatePost_patch [of store0 9 "comment_updates 3" post7] absent
  have a: "updatePost 9 (comment_updates 3) store0 = store0" by blast
  from updatePost_patch [of store0 7 "comment_updates 3" post7] cached
  have b: "posts (updatePost 7 (comment_updates 3) store0) 7
             = Some (spread post7 (comment_updates 3))"
    and c: "posts (updatePost 7 (comment_updates 3) store0) 8 = posts store0 8"
    and d: "is_liked (spread post7 (comment_updates 3))
             = (case up_is_liked (comment_updates 3) of None \<Rightarrow> is_liked post7
                | Some l \<Rightarrow> Some l)"
    by simp_all
  from d have d': "is_liked (spread post7 (comment_updates 3)) = Some False"
    by (simp add: comment_updates_def no_updates_def post7_def)
  from absent a cached b c d' show ?thesis
    by (simp add: spread_comment_updates)
qed

section \<open>The list coordinator\<close>

text \<open>
  Claim C5, as the code has it. \<open>addToFeed\<close> rebuilds the feed as the insertion-ordered
  set of the old feed followed by the new identifiers. The result never holds an
  identifier twice, holds exactly the old and the new identifiers, and two appends in a row
  equal one append of the concatenation. When the old feed is free of duplicates it is kept
  as a prefix (every identifier already present keeps its position), appending only
  identifiers that are already present changes nothing, and appending \<open>[a, b]\<close> and then
  \<open>[b, c]\<close>, all three new, adds \<open>a, b, c\<close> in this order, each once.
\<close>

theorem addToFeed_first_appearance:
  "feedPosts (addToFeed xs st) = new_Set (feedPosts st @ xs)
   \<and> posts (addToFeed xs st) = posts st
   \<and> userPosts (addToFeed xs st) = userPosts st
   \<and> distinct (feedPosts (addToFeed xs st))
   \<and> set (feedPosts (addToFeed xs st)) = set (feedPosts st) \<union> set xs
   \<and> feedPosts (addToFeed ys (addToFeed xs st)) = feedPosts (addToFeed (xs @ ys) st)
   \<and> (distinct (feedPosts st) \<longrightarrow> (\<exists>zs. feedPosts (addToFeed xs st) = feedPosts st @ zs))
   \<and> (distinct (feedPosts st) \<and> set xs \<subseteq> set (feedPosts st) \<longrightarrow> addToFeed xs st = st)
   \<and> (distinct (feedPosts st @ [a, b, c]) \<longrightarrow>
        feedPosts (addToFeed [b, c] (addToFeed [a, b] st)) = feedPosts st @ [a, b, c])"
proof (intro conjI impI)
  show "feedPosts (addToFeed xs st) = new_Set (feedPosts st @ xs)"
    by (simp add: addToFeed_def new_Set_def)
  show "posts (addToFeed xs st) = posts st" by (simp add: addToFeed_def)
  show "userPosts (addToFeed xs st) = userPosts st" by (simp add: addToFeed_def)
  show "distinct (feedPosts (addToFeed xs st))"
    by (simp add: addToFeed_def distinct_fold_set_add distinct_new_Set)
  show "set (feedPosts (addToFeed xs st)) = set (feedPosts st) \<union> set xs"
    by (simp add: addToFeed_def set_fold_set_add set_new_Set)
  show "feedPosts (addToFeed ys (addToFeed xs st)) = feedPosts (addToFeed (xs @ ys) st)"
    by (simp add: addToFeed_def new_Set_distinct distinct_fold_set_add distinct_new_Set)
next
  assume d: "distinct (feedPosts st)"
  obtain zs where "fold set_add xs (feedPosts st) = feedPosts st @ zs"
    using fold_set_add_prefix by blast
  with d show "\<exists>zs. feedPosts (addToFeed xs st) = feedPosts st @ zs"
    by (simp add: addToFeed_def new_Set_distinct)
next
  assume "distinct (feedPosts st) \<and> set xs \<subseteq> set (feedPosts st)"
  then show "addToFeed xs st = st"
    by (simp add: addToFeed_def new_Set_distinct fold_set_add_present)
next
  assume d: "distinct (feedPosts st @ [a, b, c])"
  then have "distinct (feedPosts st)" by simp
  with d show "feedPosts (addToFeed [b, c] (addToFeed [a, b] st)) = feedPosts st @ [a, b, c]"
    by (simp add: addToFeed_def new_Set_distinct set_add_def)
qed

text \<open>
  The theorem of C5 at the feed \<open>[8, 7]\<close>: appending the present identifier 7 changes
  nothing, and appending \<open>[1, 2]\<close> and then \<open>[2, 3]\<close> gives \<open>[8, 7, 1, 2, 3]\<close>.
\<close>

theorem addToFeed_first_appearance_witness:
  "distinct (feedPosts store0) \<and> set [7] \<subseteq> set (feedPosts store0)
   \<and> distinct (feedPosts store0 @ [1, 2, 3])
   \<and> addToFeed [7] store0 = store0
   \<and> (\<exists>zs. feedPosts (addToFeed [7] store0) = feedPosts store0 @ zs)
   \<and> feedPosts (addToFeed [2, 3] (addToFeed [1, 2] store0)) = [8, 7, 1, 2, 3]"
  using addToFeed_first_appearance [of "[7]" store0 "[]" 1 2 3]
  by (simp add: store0_def)

text \<open>
  C5 as stated fails on a feed that already holds an identifier twice. \<open>addNewPost\<close>
  puts 7 in front of the feed \<open>[8, 7]\<close>; appending the present identifier 8 then does
  not leave \<open>[7, 8, 7]\<close> unchanged but collapses it to \<open>[7, 8]\<close>.
\<close>

theorem addToFeed_collapses_duplicates:
  "8 \<in> set (feedPosts (addNewPost post7 store0))
   \<and> feedPosts (addNewPost post7 store0) = [7, 8, 7]
   \<and> feedPosts (addToFeed [8] (addNewPost post7 store0)) = [7, 8]"
  by (simp add: addToFeed_def new_Set_def set_add_def addNewPost_def setPost_def store0_def
      post7_def)

section \<open>Optimistic like and its rollback\<close>

text \<open>
  Claim C1. When the post is cached and the request that \<open>toggleLike\<close> sends (unlike for
  a liked post, like otherwise) is rejected, \<open>toggleLike\<close> rethrows the error and leaves
  the entry with \<open>is_liked\<close> and \<open>like_count\<close> equal to the two values it captured
  before its optimistic update (\<open>wasLiked\<close> and \<open>oldLikeCount\<close> of the entry as it
  was when this call started), every other field and entry untouched. When both fields were
  present, the store is exactly the store from before the call.
\<close>

theorem toggleLike_failure_restores_snapshot:
  assumes cached: "posts st postId = Some p"
    and fails: "(if wasLiked p then postAPI_unlike net postId else postAPI_like net postId)
                = Rejected e"
  shows "toggleLike net postId st =
           (Throws e,
            st\<lparr>posts := (posts st)(postId \<mapsto>
                  p\<lparr>is_liked := Some (wasLiked p), like_count := Some (oldLikeCount p)\<rparr>)\<rparr>,
            [Request (if wasLiked p then Unlike postId else Like postId),
             ToastError (or_else (response_data_error e) ''Failed to toggle like'')])
         \<and> (is_liked p \<noteq> None \<and> like_count p \<noteq> None \<longrightarrow>
              settled (toggleLike net postId st) = st)"
proof -
  have run: "toggleLike net postId st =
           (Throws e,
            st\<lparr>posts := (posts st)(postId \<mapsto>
                  p\<lparr>is_liked := Some (wasLiked p), like_count := Some (oldLikeCount p)\<rparr>)\<rparr>,
            [Request (if wasLiked p then Unlike postId else Like postId),
             ToastError (or_else (response_data_error e) ''Failed to toggle like'')])"
    using cached fails
    by (simp add: toggleLike_def toggleLike_known_def Let_def updatePost_twice
        spread_like_updates)
  moreover have "settled (toggleLike net postId st) = st"
    if "is_liked p \<noteq> None \<and> like_count p \<noteq> None"
    using that cached by (simp add: run settled_def snapshot_defined store_put_same)
  ultimately show ?thesis by blast
qed

text \<open>
  The scenario of the spec as an instance of C1: post 7 starts unliked with count 5, a first
  toggle succeeds (liked, 6), a second toggle fails on the network; the store is then the
  one left by the first toggle, not the original one.
\<close>

theorem toggleLike_failure_restores_snapshot_witness:
  "posts (settled (toggleLike net_ok 7 store0)) 7
     = Some (post7\<lparr>is_liked := Some True, like_count := Some 6\<rparr>)
   \<and> postAPI_unlike net_down 7 = Rejected server_down
   \<and> fst (toggleLike net_down 7 (settled (toggleLike net_ok 7 store0))) = Throws server_down
   \<and> settled (toggleLike net_down 7 (settled (toggleLike net_ok 7 store0)))
       = settled (toggleLike net_ok 7 store0)"
proof -
  let ?st1 = "settled (toggleLike net_ok 7 store0)"
  let ?p1 = "post7\<lparr>is_liked := Some True, like_count := Some 6\<rparr>"
  have cached: "posts ?st1 7 = Some ?p1"
    by (simp add: store0_after_like)
  have fails: "(if wasLiked ?p1 then postAPI_unlike net_down 7 else postAPI_like net_down 7)
               = Rejected server_down"
    by (simp add: net_down_def)
  have defined: "is_liked ?p1 \<noteq> None \<and> like_count ?p1 \<noteq> None" by simp
  note restored = toggleLike_failure_restores_snapshot [OF cached fails]
  from restored have thrown: "fst (toggleLike net_down 7 ?st1) = Throws server_down"
    by simp
  from restored defined have same: "settled (toggleLike net_down 7 ?st1) = ?st1"
    by blast
  have down: "postAPI_unlike net_down 7 = Rejected server_down"
    by (simp add: net_down_def)
  from cached down thrown same show ?thesis by blast
qed

text \<open>
  Claim C2, as the code has it. Two toggles in a row, both requests accepted, bring
  \<open>is_liked\<close> and \<open>like_count\<close> back to the state and count read before the first
  toggle, provided the count is at least 1 for a liked post, at least 0 for one that is not
  liked, and below \<open>2 ^ 53\<close>, up to where adding 1 to a JavaScript number is exact. With
  both fields present the store is exactly the original one.
\<close>

theorem toggleLike_twice_restores:
  assumes cached: "posts st postId = Some p"
    and first: "(if wasLiked p then postAPI_unlike net1 postId else postAPI_like net1 postId)
                = Resolved ()"
    and second: "(if wasLiked p then postAPI_like net2 postId else postAPI_unlike net2 postId)
                 = Resolved ()"
    and count: "if wasLiked p then 1 \<le> oldLikeCount p else 0 \<le> oldLikeCount p"
    and safe: "oldLikeCount p < 2 ^ 53"
  shows "settled (toggleLike net2 postId (settled (toggleLike net1 postId st))) =
           st\<lparr>posts := (posts st)(postId \<mapsto>
                 p\<lparr>is_liked := Some (wasLiked p), like_count := Some (oldLikeCount p)\<rparr>)\<rparr>
         \<and> (is_liked p \<noteq> None \<and> like_count p \<noteq> None \<longrightarrow>
              settled (toggleLike net2 postId (settled (toggleLike net1 postId st))) = st)"
proof -
  let ?twice = "settled (toggleLike net2 postId (settled (toggleLike net1 postId st)))"
  have two: "?twice =
      st\<lparr>posts := (posts st)(postId \<mapsto>
            p\<lparr>is_liked := Some (wasLiked p), like_count := Some (oldLikeCount p)\<rparr>)\<rparr>"
  proof (cases "wasLiked p")
    case True
    with count have c: "1 \<le> oldLikeCount p" by simp
    from c safe have down: "js_sub (oldLikeCount p) 1 = oldLikeCount p - 1"
      by (simp add: js_sub_safe)
    from c safe have up: "js_add (oldLikeCount p - 1) 1 = oldLikeCount p"
      by (simp add: js_add_safe)
    from True first have f: "postAPI_unlike net1 postId = Resolved ()" by simp
    from True second have s: "postAPI_like net2 postId = Resolved ()" by simp
    from cached True c f s show ?thesis
      by (simp add: toggleLike_def toggleLike_known_def Let_def settled_def updatePost_def
          spread_like_updates wasLiked_updated oldLikeCount_updated down up)
  next
    case False
    with count have c: "0 \<le> oldLikeCount p" by simp
    from c safe have up: "js_add (oldLikeCount p) 1 = oldLikeCount p + 1"
      by (simp add: js_add_safe)
    from c safe have down: "js_sub (oldLikeCount p + 1) 1 = oldLikeCount p"
      by (simp add: js_sub_safe)
    from False first have f: "postAPI_like net1 postId = Resolved ()" by simp
    from False second have s: "postAPI_unlike net2 postId = Resolved ()" by simp
    from cached False c f s show ?thesis
      by (simp add: toggleLike_def toggleLike_known_def Let_def settled_def updatePost_def
          spread_like_updates wasLiked_updated oldLikeCount_updated down up)
  qed
  have full: "?twice = st" if "is_liked p \<noteq> None \<and> like_count p \<noteq> None"
    using that cached by (simp add: two snapshot_defined store_put_same)
  from two full show ?thesis by blast
qed

text \<open>The theorem of C2 on post 7 (not liked, count 5): two toggles return the store.\<close>

theorem toggleLike_twice_restores_witness:
  "posts store0 7 = Some post7
   \<and> settled (toggleLike net_ok 7 (settled (toggleLike net_ok 7 store0))) = store0"
proof -
  have cached: "posts store0 7 = Some post7" by (simp add: store0_def)
  have first: "(if wasLiked post7 then postAPI_unlike net_ok 7 else postAPI_like net_ok 7)
               = Resolved ()"
    by (simp add: net_ok_def)
  have second: "(if wasLiked post7 then postAPI_like net_ok 7 else postAPI_unlike net_ok 7)
                = Resolved ()"
    by (simp add: net_ok_def)
  have count: "if wasLiked post7 then 1 \<le> oldLikeCount post7 else 0 \<le> oldLikeCount post7"
    by (simp add: wasLiked_def oldLikeCount_def post7_def)
  have safe: "oldLikeCount post7 < 2 ^ 53"
    by (simp add: oldLikeCount_def post7_def)
  have defined: "is_liked post7 \<noteq> None \<and> like_count post7 \<noteq> None"
    by (simp add: post7_def)
  from toggleLike_twice_restores [OF cached first second count safe] defined cached
  show ?thesis by blast
qed

text \<open>
  C2 as stated fails where the clamp acts: post 8 is liked with count 0; the first toggle
  unlikes it and keeps the count at 0, the second likes it again and ends at count 1.
\<close>

theorem toggleLike_twice_clamped:
  "posts store0 8 = Some post8
   \<and> is_liked post8 = Some True \<and> like_count post8 = Some 0
   \<and> posts (settled (toggleLike net_ok 8 (settled (toggleLike net_ok 8 store0)))) 8
       = Some (post8\<lparr>is_liked := Some True, like_count := Some 1\<rparr>)"
  by (simp add: toggleLike_def toggleLike_known_def Let_def settled_def store0_def net_ok_def
      post8_def updatePost_def spread_like_updates wasLiked_def oldLikeCount_def js_add_safe
      js_sub_safe)

text \<open>
  The upper bound in C2 is needed as well: post 9 is not liked and its count is
  \<open>2 ^ 53\<close>. The first toggle adds 1, which the number cannot hold, so the count stays;
  the second subtracts 1, and the count ends one below the original.
\<close>

lemma toggleLike_twice_beyond_safe_integers:
  "posts store9 9 = Some post9
   \<and> is_liked post9 = Some False \<and> like_count post9 = Some (2 ^ 53)
   \<and> posts (settled (toggleLike net_ok 9 (settled (toggleLike net_ok 9 store9)))) 9
       = Some (post9\<lparr>is_liked := Some False, like_count := Some (2 ^ 53 - 1)\<rparr>)"
proof -
  have up: "js_add 9007199254740992 1 = 9007199254740992"
    unfolding js_add_def by code_simp
  have down: "js_sub 9007199254740992 1 = 9007199254740991"
    by (simp add: js_sub_safe)
  show ?thesis
    by (simp add: toggleLike_def toggleLike_known_def Let_def settled_def store9_def net_ok_def
        post9_def updatePost_def spread_like_updates wasLiked_def oldLikeCount_def up down)
qed

text \<open>
  Claim C10. For an identifier that is not cached, \<open>likePost\<close>, \<open>unlikePost\<close> and
  \<open>addComment\<close> return at once: no error, the store unchanged, no request and no toast.
  \<open>toggleLike\<close> instead starts by requesting the post.
\<close>

theorem absent_post_is_ignored:
  assumes "posts st postId = None"
  shows "likePost net postId st = (Returns (), st, [])
         \<and> unlikePost net postId st = (Returns (), st, [])
         \<and> addComment net postId text' st = (Returns None, st, [])
         \<and> (\<exists>r st1 ev. toggleLike net postId st = (r, st1, Request (GetById postId) # ev))"
  using assms
  by (auto simp: likePost_def unlikePost_def addComment_def toggleLike_def toggleLike_known_def
      Let_def split: reply.splits)

text \<open>The theorem of C10 at the identifier 9, which the concrete cache does not hold.\<close>

theorem absent_post_is_ignored_witness:
  "posts store0 9 = None
   \<and> likePost net_ok 9 store0 = (Returns (), store0, [])
   \<and> unlikePost net_ok 9 store0 = (Returns (), store0, [])
   \<and> addComment net_ok 9 ''nice'' store0 = (Returns None, store0, [])
   \<and> (\<exists>r st1 ev. toggleLike net_ok 9 store0 = (r, st1, Request (GetById 9) # ev))"
proof -
  have absent: "posts store0 9 = None" by (simp add: store0_def)
  from absent_post_is_ignored [OF absent, of net_ok "''nice''"] absent
  show ?thesis by simp
qed

section \<open>Deleting a post\<close>

text \<open>
  Claim C3, on \<open>deletePost\<close> as the spec describes it. Once \<open>deletePost\<close> has settled,
  whether the server accepted the request or not, \<open>getPost\<close> on the identifier yields
  nothing, the identifier occurs neither in the feed nor in any per-user list, every other
  cache entry is as before, and the lists keep their other identifiers in order. The
  confirmed \<open>handleDelete\<close> of PostDetail, run by the owner of the post, leaves exactly
  this store.
\<close>

theorem deletePost_removes_everywhere:
  "getPost (settled (deletePost net postId st)) postId = None
   \<and> postId \<notin> set (feedPosts (settled (deletePost net postId st)))
   \<and> (\<forall>username ids. userPosts (settled (deletePost net postId st)) username = Some ids
         \<longrightarrow> postId \<notin> set ids)
   \<and> (\<forall>k. k \<noteq> postId \<longrightarrow> getPost (settled (deletePost net postId st)) k = getPost st k)
   \<and> feedPosts (settled (deletePost net postId st)) = filter (\<lambda>i. i \<noteq> postId) (feedPosts st)
   \<and> (\<forall>username. userPosts (settled (deletePost net postId st)) username
         = map_option (filter (\<lambda>i. i \<noteq> postId)) (userPosts st username))
   \<and> (\<forall>p. getPost st postId = Some p \<and> isOwnPost a p \<longrightarrow>
         fst (handleDelete_PostDetail (deletePost net) a True postId st)
           = settled (deletePost net postId st))"
  by (auto simp: deletePost_settled getPost_def handleDelete_PostDetail_owner)

text \<open>
  The theorem of C3 on the concrete store: ann deletes her post 7 while the server is
  down; the feed is \<open>[8]\<close>, bob's list is \<open>[8]\<close>, post 8 is still cached and post 7
  is gone.
\<close>

theorem deletePost_removes_everywhere_witness:
  "userPosts (settled (deletePost net_down 7 store0)) ''bob'' = Some [8]
   \<and> 7 \<notin> set [8::nat]
   \<and> 8 \<noteq> (7::nat)
   \<and> getPost store0 7 = Some post7 \<and> isOwnPost ann_session post7
   \<and> getPost (settled (deletePost net_down 7 store0)) 7 = None
   \<and> getPost (settled (deletePost net_down 7 store0)) 8 = Some post8
   \<and> feedPosts (settled (deletePost net_down 7 store0)) = [8]
   \<and> getPost (fst (handleDelete_PostDetail (deletePost net_down) ann_session True 7 store0)) 7
       = None"
proof -
  note removed = deletePost_removes_everywhere [of net_down 7 store0 ann_session]
  have bob: "userPosts store0 ''bob'' = Some [8, 7]" by (simp add: store0_def)
  have cached: "getPost store0 7 = Some post7" by (simp add: getPost_def store0_def)
  have owner: "isOwnPost ann_session post7"
    by (simp add: isOwnPost_def isAuthenticated_def ann_session_def ann_def post7_def)
  from removed bob have a: "userPosts (settled (deletePost net_down 7 store0)) ''bob'' = Some [8]"
    by simp
  from removed have b: "getPost (settled (deletePost net_down 7 store0)) 7 = None" by blast
  from removed have "getPost (settled (deletePost net_down 7 store0)) 8 = getPost store0 8"
    by simp
  then have c: "getPost (settled (deletePost net_down 7 store0)) 8 = Some post8"
    by (simp add: getPost_def store0_def)
  from removed have d: "feedPosts (settled (deletePost net_down 7 store0)) = [8]"
    by (simp add: store0_def)
  from removed cached owner
  have "fst (handleDelete_PostDetail (deletePost net_down) ann_session True 7 store0)
          = settled (deletePost net_down 7 store0)"
    by blast
  with b have e: "getPost (fst (handleDelete_PostDetail (deletePost net_down) ann_session True 7
                      store0)) 7 = None"
    by simp
  from a b c d e cached owner show ?thesis by simp
qed

section \<open>The session check of the mutating actions\<close>

text \<open>
  Claim C4, as the code has it. The session is checked by the handlers of the components,
  not by the context actions. Without an authenticated session each handler leaves the
  store unchanged and sends no request: \<open>handleLike\<close> and \<open>handleDeleteComment\<close> show
  a login error (the PostDetail variant of \<open>handleLike\<close> also navigates to the login
  page), while \<open>handleComment\<close> and \<open>handleDelete\<close> return without any message.
\<close>

theorem handlers_refuse_without_session:
  assumes "\<not> isAuthenticated a"
  shows "handleLike net a postId st = (st, [ToastError ''Please login to like posts''])
         \<and> handleLike_PostDetail net a postId st
             = (st, [ToastError ''Please login to like posts'', Navigate ''/login''])
         \<and> handleComment trim net a postId commentText st = (st, [])
         \<and> handleDelete deletePost_action a confirmed p st = (st, [])
         \<and> handleDelete_PostDetail deletePost_action a confirmed postId st = (st, [])
         \<and> handleDeleteComment deleteComment_action a confirmed commentId postId st
             = (st, [ToastError ''Please login to delete comments''])"
  using assms
  by (simp add: handleLike_def handleLike_PostDetail_def handleComment_def handleDelete_def
      handleDelete_PostDetail_def handleDeleteComment_def isOwnPost_def split: option.splits)

text \<open>The theorem of C4 for a visitor with no token and no user.\<close>

theorem handlers_refuse_without_session_witness:
  "\<not> isAuthenticated no_session
   \<and> handleLike net_ok no_session 7 store0 = (store0, [ToastError ''Please login to like posts''])
   \<and> handleComment id net_ok no_session 7 ''nice'' store0 = (store0, [])
   \<and> handleDelete (\<lambda>i s. (Returns (), s, [])) no_session True post7 store0 = (store0, [])
   \<and> handleDeleteComment (\<lambda>c i s. (Returns (), s, [])) no_session True 1 7 store0
       = (store0, [ToastError ''Please login to delete comments''])"
proof -
  have none: "\<not> isAuthenticated no_session"
    by (simp add: isAuthenticated_def no_session_def)
  from handlers_refuse_without_session [OF none, of net_ok 7 store0 id "''nice''"
      "\<lambda>i s. (Returns (), s, [])" True post7
      "\<lambda>c i s. (Returns (), s, [])" 1] none
  show ?thesis by simp
qed

text \<open>
  C4 as stated fails for the context actions, which take no session at all: with no
  session anywhere, \<open>toggleLike\<close> on a cached post applies its update and sends the like
  request. And the refusal of \<open>handleComment\<close> is silent: no error is raised or shown.
\<close>

theorem context_actions_check_no_session:
  "\<not> isAuthenticated no_session
   \<and> toggleLike net_ok 7 store0 =
       (Returns (),
        store0\<lparr>posts := (posts store0)(7 \<mapsto> post7\<lparr>is_liked := Some True, like_count := Some 6\<rparr>)\<rparr>,
        [Request (Like 7)])
   \<and> settled (toggleLike net_ok 7 store0) \<noteq> store0
   \<and> handleComment id net_ok no_session 7 ''nice'' store0 = (store0, [])"
proof -
  have run: "toggleLike net_ok 7 store0 =
       (Returns (),
        store0\<lparr>posts := (posts store0)(7 \<mapsto> post7\<lparr>is_liked := Some True, like_count := Some 6\<rparr>)\<rparr>,
        [Request (Like 7)])"
    by (simp add: toggleLike_def toggleLike_known_def Let_def store0_def net_ok_def
      post7_def updatePost_def spread_like_updates wasLiked_def oldLikeCount_def js_add_safe)
  have "posts (settled (toggleLike net_ok 7 store0)) 7
          = Some (post7\<lparr>is_liked := Some True, like_count := Some 6\<rparr>)"
    by (simp add: store0_after_like)
  moreover have "posts store0 7 = Some post7" by (simp add: store0_def)
  moreover have "post7\<lparr>is_liked := Some True, like_count := Some 6\<rparr> \<noteq> post7"
    by (simp add: post7_def)
  ultimately have changed: "settled (toggleLike net_ok 7 store0) \<noteq> store0" by auto
  have silent: "handleComment id net_ok no_session 7 ''nice'' store0 = (store0, [])"
    by (simp add: handleComment_def isAuthenticated_def no_session_def)
  have none: "\<not> isAuthenticated no_session"
    by (simp add: isAuthenticated_def no_session_def)
  from none run changed silent show ?thesis by blast
qed

section \<open>Pagination\<close>

text \<open>
  Claim C7. While a later page is loading (\<open>loadingMore\<close>) or when \<open>hasMore\<close> is
  false, \<open>handleLoadMore\<close> returns the state unchanged, so the page number stays, the
  effect issues no fetch, and any number of repeated calls changes nothing. A click cannot
  reach the handler during the first load either, because the button is not rendered then.
  A running fetch always has one of the two loading flags set, and an answer whose
  \<open>has_next\<close> is not true sets \<open>hasMore\<close> to false.
\<close>

theorem load_more_is_noop:
  "(loadingMore fs \<or> \<not> hasMore fs \<longrightarrow>
      handleLoadMore fs = fs
      \<and> load_more authenticated fs = (fs, [])
      \<and> (handleLoadMore ^^ n) fs = fs)
   \<and> (feed_loading fs \<or> loadingMore fs \<or> \<not> hasMore fs \<longrightarrow>
        click_load_more authenticated postsList_length fs = (fs, []))
   \<and> (feed_loading (fetchFeed_begin fs) \<or> loadingMore (fetchFeed_begin fs))
   \<and> (has_next d \<noteq> Some True \<longrightarrow>
        \<not> hasMore (fst (fst (fetchFeed_end (Resolved d) (fs, st)))))"
proof (intro conjI impI)
  assume idle: "loadingMore fs \<or> \<not> hasMore fs"
  then show "handleLoadMore fs = fs" by (rule handleLoadMore_idle)
  then show "load_more authenticated fs = (fs, [])"
    by (simp add: load_more_def effect_requests_def)
  from idle show "(handleLoadMore ^^ n) fs = fs" by (rule handleLoadMore_repeated)
next
  assume "feed_loading fs \<or> loadingMore fs \<or> \<not> hasMore fs"
  then show "click_load_more authenticated postsList_length fs = (fs, [])"
    by (auto simp: click_load_more_def load_more_button_def)
next
  show "feed_loading (fetchFeed_begin fs) \<or> loadingMore (fetchFeed_begin fs)"
    by (simp add: fetchFeed_begin_def)
next
  assume "has_next d \<noteq> Some True"
  then show "\<not> hasMore (fst (fst (fetchFeed_end (Resolved d) (fs, st))))"
    by (cases "has_next d") (simp_all add: fetchFeed_end_def Let_def)
qed

text \<open>
  The theorem of C7 while page 2 is loading, and after the last page has arrived.
\<close>

theorem load_more_is_noop_witness:
  "loadingMore loading_page_2
   \<and> handleLoadMore loading_page_2 = loading_page_2
   \<and> load_more True loading_page_2 = (loading_page_2, [])
   \<and> (handleLoadMore ^^ 5) loading_page_2 = loading_page_2
   \<and> click_load_more True 10 loading_page_2 = (loading_page_2, [])
   \<and> has_next last_page \<noteq> Some True
   \<and> \<not> hasMore (fst (fst (fetchFeed_end (Resolved last_page) (loading_page_2, store0))))"
proof -
  have busy: "loadingMore loading_page_2" by (simp add: loading_page_2_def)
  have last: "has_next last_page \<noteq> Some True" by (simp add: last_page_def)
  from load_more_is_noop [of loading_page_2 True 5 10 last_page store0] busy last
  show ?thesis by blast
qed

section \<open>Restoring and creating a session\<close>

text \<open>
  Claim C8. If the stored token decodes to a payload whose \<open>exp\<close> is not strictly after
  the current time (\<open>Date.now() / 1000\<close>), the session is not authenticated after the
  mount effect; and when both items are stored and non-empty, both are removed from the
  storage and token and user stay \<open>null\<close>.
\<close>

theorem expired_session_is_not_restored:
  assumes stored: "item_token ls = Some storedToken"
    and decoded: "jwtDecode storedToken = Some decoded"
    and expiry: "jwt_exp decoded = Some e"
    and expired: "e \<le> of_int now / 1000"
  shows "\<not> isAuthenticated (snd (initAuth jwtDecode JSON_parse now ls))
         \<and> (storedToken \<noteq> [] \<and> truthy (item_user ls) \<longrightarrow>
              initAuth jwtDecode JSON_parse now ls =
                (\<lparr>item_token = None, item_user = None\<rparr>,
                 \<lparr>user = None, token = None, auth_loading = False\<rparr>))"
proof -
  from expiry expired have late: "\<not> exp_after decoded (of_int now / 1000)"
    by (simp add: exp_after_def)
  have a: "\<not> isAuthenticated (snd (initAuth jwtDecode JSON_parse now ls))"
    using stored decoded late
    by (simp add: initAuth_def Let_def isAuthenticated_def initial_auth_def
        split: option.splits)
  have b: "initAuth jwtDecode JSON_parse now ls =
                (\<lparr>item_token = None, item_user = None\<rparr>,
                 \<lparr>user = None, token = None, auth_loading = False\<rparr>)"
    if "storedToken \<noteq> [] \<and> truthy (item_user ls)"
  proof -
    from that obtain storedUser where u: "item_user ls = Some storedUser" "storedUser \<noteq> []"
      by (cases "item_user ls") auto
    with that stored decoded late show ?thesis
      by (simp add: initAuth_def Let_def initial_auth_def removeItems_def)
  qed
  from a b show ?thesis by blast
qed

text \<open>
  The theorem of C8 at the boundary: a token that expires at second 1000 is refused at
  millisecond 1000000, and restored one millisecond earlier.
\<close>

theorem expired_session_is_not_restored_witness:
  "item_token stored_session = Some ''header.payload.signature''
   \<and> decode_exp_1000 ''header.payload.signature'' = Some \<lparr>jwt_exp = Some 1000\<rparr>
   \<and> (1000::rat) \<le> of_int 1000000 / 1000
   \<and> initAuth decode_exp_1000 parse_ann 1000000 stored_session =
       (\<lparr>item_token = None, item_user = None\<rparr>,
        \<lparr>user = None, token = None, auth_loading = False\<rparr>)
   \<and> isAuthenticated (snd (initAuth decode_exp_1000 parse_ann 999999 stored_session))"
proof -
  have stored: "item_token stored_session = Some ''header.payload.signature''"
    by (simp add: stored_session_def)
  have decoded: "decode_exp_1000 ''header.payload.signature'' = Some \<lparr>jwt_exp = Some 1000\<rparr>"
    by (simp add: decode_exp_1000_def)
  have expiry: "jwt_exp \<lparr>jwt_exp = Some 1000\<rparr> = Some 1000" by simp
  have expired: "(1000::rat) \<le> of_int 1000000 / 1000" by simp
  have present: "''header.payload.signature'' \<noteq> [] \<and> truthy (item_user stored_session)"
    by (simp add: stored_session_def)
  from expired_session_is_not_restored
         [where ls = stored_session and jwtDecode = decode_exp_1000 and JSON_parse = parse_ann,
          OF stored decoded expiry expired]
       present
  have cleared: "initAuth decode_exp_1000 parse_ann 1000000 stored_session =
       (\<lparr>item_token = None, item_user = None\<rparr>,
        \<lparr>user = None, token = None, auth_loading = False\<rparr>)"
    by blast
  have valid: "isAuthenticated (snd (initAuth decode_exp_1000 parse_ann 999999 stored_session))"
    by (simp add: initAuth_def Let_def initial_auth_def stored_session_def decode_exp_1000_def
        parse_ann_def exp_after_def isAuthenticated_def)
  from stored decoded expired cleared valid show ?thesis by blast
qed

text \<open>
  Claim C9. After a successful \<open>signup\<close> neither a token nor a user is stored, in the
  storage or in the state, whatever the server sent back and whatever was stored before;
  the session is not authenticated.
\<close>

theorem signup_creates_no_session:
  assumes "authAPI_signup net uname email password = Resolved d"
  shows "signup net uname email password (ls, a) =
           (Success (Some (or_else (data_message d) ''Account created successfully'')),
            \<lparr>item_token = None, item_user = None\<rparr>,
            a\<lparr>token := None, user := None\<rparr>)
         \<and> \<not> isAuthenticated (snd (snd (signup net uname email password (ls, a))))"
  using assms by (simp add: signup_def removeItems_def isAuthenticated_def)

text \<open>
  The theorem of C9 for a server that answers with a token and a user, starting from a
  stored, authenticated session.
\<close>

theorem signup_creates_no_session_witness:
  "authAPI_signup signup_ok ''ann'' ''ann@example.org'' ''secret''
     = Resolved \<lparr>data_token = Some ''header.payload.signature'', data_user = Some ann,
                 data_message = Some ''User created successfully''\<rparr>
   \<and> isAuthenticated ann_session
   \<and> signup signup_ok ''ann'' ''ann@example.org'' ''secret'' (stored_session, ann_session) =
       (Success (Some ''User created successfully''),
        \<lparr>item_token = None, item_user = None\<rparr>,
        \<lparr>user = None, token = None, auth_loading = False\<rparr>)
   \<and> \<not> isAuthenticated
         (snd (snd (signup signup_ok ''ann'' ''ann@example.org'' ''secret''
                      (stored_session, ann_session))))"
proof -
  have ok: "authAPI_signup signup_ok ''ann'' ''ann@example.org'' ''secret''
     = Resolved \<lparr>data_token = Some ''header.payload.signature'', data_user = Some ann,
                 data_message = Some ''User created successfully''\<rparr>"
    by (simp add: signup_ok_def)
  have before: "isAuthenticated ann_session"
    by (simp add: isAuthenticated_def ann_session_def)
  note created = signup_creates_no_session [OF ok, of stored_session ann_session]
  from created
  have result: "signup signup_ok ''ann'' ''ann@example.org'' ''secret'' (stored_session, ann_session) =
       (Success (Some ''User created successfully''),
        \<lparr>item_token = None, item_user = None\<rparr>,
        \<lparr>user = None, token = None, auth_loading = False\<rparr>)"
    by (simp add: ann_session_def)
  from created
  have after: "\<not> isAuthenticated
         (snd (snd (signup signup_ok ''ann'' ''ann@example.org'' ''secret''
                      (stored_session, ann_session))))"
    by blast
  from ok before result after show ?thesis by blast
qed

text \<open>
  The second copy of \<open>signup\<close> in the same file behaves differently: on the same answer
  it stores token and user and the session is authenticated.
\<close>

lemma signup_second_copy_stores_session:
  "signup_second_copy signup_ok username ''ann'' ''ann@example.org'' ''secret''
     (\<lparr>item_token = None, item_user = None\<rparr>, no_session) =
     (Success None,
      \<lparr>item_token = Some ''header.payload.signature'', item_user = Some ''ann''\<rparr>,
      \<lparr>user = Some ann, token = Some ''header.payload.signature'', auth_loading = False\<rparr>)"
  by (simp add: signup_second_copy_def signup_ok_def no_session_def ann_def)

end
